theory Spec2Isabelle
  imports Main "HOL-Library.Sublist"
begin

section \<open>JavaScript values used by the rule engine\<close>

text \<open>
  The numeric fields of a rule and the stay length of a booking are results of
  \<^verbatim>\<open>parseInt(s, 10)\<close>: an integer or \<^verbatim>\<open>NaN\<close>. A field that is \<^verbatim>\<open>null\<close>
  is \<open>None\<close>. Integers are unbounded here; the loss of precision of a JavaScript
  number above \<open>2^53\<close> is outside the model.
\<close>

datatype jsnum = NaN | Num int

text \<open>\<^verbatim>\<open>!!n\<close> for a number: zero and \<^verbatim>\<open>NaN\<close> are falsy.\<close>

fun truthy :: "jsnum \<Rightarrow> bool" where
  "truthy NaN = False"
| "truthy (Num n) = (n \<noteq> 0)"

text \<open>\<^verbatim>\<open>a < b\<close> and \<^verbatim>\<open>a > b\<close> on numbers: every comparison with \<^verbatim>\<open>NaN\<close> is false.\<close>

fun js_lt :: "jsnum \<Rightarrow> jsnum \<Rightarrow> bool" where
  "js_lt (Num a) (Num b) = (a < b)"
| "js_lt _ _ = False"

fun js_gt :: "jsnum \<Rightarrow> jsnum \<Rightarrow> bool" where
  "js_gt (Num a) (Num b) = (a > b)"
| "js_gt _ _ = False"

section \<open>Dates\<close>

text \<open>
  A JavaScript \<^verbatim>\<open>Date\<close> is either the Invalid Date or a time value in
  milliseconds. The time value is read on the local clock; the local zone is taken to
  have a constant offset, so a local calendar day is a block of \<open>86400000\<close>
  milliseconds and day \<open>0\<close> is Thursday 1970-01-01.
\<close>

datatype Date = InvalidDate | ValidDate int

definition msPerDay :: int where
  "msPerDay = 86400000"

definition dayOf :: "int \<Rightarrow> int" where
  "dayOf ms = ms div msPerDay"

text \<open>date-fns \<^verbatim>\<open>isBefore\<close>, \<^verbatim>\<open>isAfter\<close>: comparison of the time values, false when
  either date is invalid.\<close>

fun isBefore :: "Date \<Rightarrow> Date \<Rightarrow> bool" where
  "isBefore (ValidDate a) (ValidDate b) = (a < b)"
| "isBefore _ _ = False"

fun isAfter :: "Date \<Rightarrow> Date \<Rightarrow> bool" where
  "isAfter (ValidDate a) (ValidDate b) = (a > b)"
| "isAfter _ _ = False"

text \<open>date-fns \<^verbatim>\<open>differenceInCalendarDays(left, right)\<close>: the number of local calendar
  days from \<open>right\<close> to \<open>left\<close>, \<^verbatim>\<open>NaN\<close> when either date is invalid.\<close>

fun differenceInCalendarDays :: "Date \<Rightarrow> Date \<Rightarrow> jsnum" where
  "differenceInCalendarDays (ValidDate l) (ValidDate r) = Num (dayOf l - dayOf r)"
| "differenceInCalendarDays _ _ = NaN"

text \<open>\<^verbatim>\<open>Date.prototype.getDay\<close>: \<open>0\<close> (Sunday) to \<open>6\<close> (Saturday), \<^verbatim>\<open>NaN\<close> for the
  Invalid Date.\<close>

fun getDay :: "Date \<Rightarrow> jsnum" where
  "getDay (ValidDate ms) = Num ((dayOf ms + 4) mod 7)"
| "getDay InvalidDate = NaN"

section \<open>Price rules\<close>

text \<open>
  The object built by \<^verbatim>\<open>parseXmlRules\<close>. The fields \<^verbatim>\<open>id\<close>, \<^verbatim>\<open>from\<close> and \<^verbatim>\<open>to\<close>
  are named \<open>rule_id\<close>, \<open>rule_from\<close> and \<open>rule_to\<close>. The type \<open>'f\<close> is the type of
  the results of \<^verbatim>\<open>parseFloat\<close>.
\<close>

record 'f rule =
  rule_id :: nat
  rule_from :: "string option"
  rule_to :: "string option"
  percentage :: "'f option"
  arrivalWeekdays :: "jsnum list"
  minStay :: "jsnum option"
  maxStay :: "jsnum option"
  maxDaysToArrival :: "jsnum option"
  colour :: string
  originalXml :: string

section \<open>The booking evaluator\<close>

text \<open>
  \<^verbatim>\<open>isBookingAllowedByRule(rule, startDate, length, bookingCreationDate)\<close>.
  date-fns \<^verbatim>\<open>parseISO\<close> is a parameter: a function from the argument (a string, or
  \<^verbatim>\<open>null\<close> for a rule without the tag) to a \<open>Date\<close>, which is the Invalid Date when
  the argument cannot be parsed. \<open>startDate\<close> and \<open>len\<close> are \<open>None\<close> when the
  caller passes \<^verbatim>\<open>undefined\<close> or \<^verbatim>\<open>null\<close>.
\<close>

definition stayFails :: "'f rule \<Rightarrow> jsnum \<Rightarrow> bool" where
  "stayFails rule len =
     ((case minStay rule of None \<Rightarrow> False | Some m \<Rightarrow> truthy m \<and> js_lt len m) \<or>
      (case maxStay rule of None \<Rightarrow> False | Some m \<Rightarrow> truthy m \<and> js_gt len m))"

definition windowFails :: "'f rule \<Rightarrow> Date \<Rightarrow> Date \<Rightarrow> bool" where
  "windowFails rule arrival bookingCreationDate =
     (case maxDaysToArrival rule of
        None \<Rightarrow> False
      | Some m \<Rightarrow> (let diff = differenceInCalendarDays arrival bookingCreationDate
                  in js_gt diff m))"

definition weekdayFails :: "'f rule \<Rightarrow> Date \<Rightarrow> bool" where
  "weekdayFails rule arrival =
     (if length (arrivalWeekdays rule) > 0
      then (let jsDay = getDay arrival;
                weekday = (if jsDay = Num 0 then Num 7 else jsDay)
            in weekday \<notin> set (arrivalWeekdays rule))
      else False)"

definition isBookingAllowedByRule ::
  "(string option \<Rightarrow> Date) \<Rightarrow> 'f rule \<Rightarrow> string option \<Rightarrow> jsnum option \<Rightarrow> Date \<Rightarrow> bool" where
  "isBookingAllowedByRule parseISO rule startDate len bookingCreationDate =
     (case (startDate, len) of
        (Some s, Some n) \<Rightarrow>
          if s = [] \<or> \<not> truthy n then False
          else
            let arrival = parseISO (Some s);
                ruleStart = parseISO (rule_from rule);
                ruleEnd = parseISO (rule_to rule)
            in if isBefore arrival ruleStart \<or> isAfter arrival ruleEnd then False
               else if stayFails rule n then False
               else if windowFails rule arrival bookingCreationDate then False
               else if weekdayFails rule arrival then False
               else True
      | _ \<Rightarrow> False)"

text \<open>A booking input is falsy when it is absent, or the empty string, or the numbers
  \<open>0\<close> and \<^verbatim>\<open>NaN\<close>.\<close>

definition falsyString :: "string option \<Rightarrow> bool" where
  "falsyString s = (s = None \<or> s = Some [])"

definition falsyNumber :: "jsnum option \<Rightarrow> bool" where
  "falsyNumber n = (n = None \<or> n = Some NaN \<or> n = Some (Num 0))"

section \<open>A parser of calendar dates\<close>

text \<open>
  The concrete inputs of this development are dates \<^verbatim>\<open>YYYY-MM-DD\<close>, the format of
  the rule documents and of the date inputs. \<open>parseISO_date\<close> reads this format as
  date-fns \<^verbatim>\<open>parseISO\<close> does (local midnight of that day, the Invalid Date when the
  month or the day is out of range) and returns the Invalid Date for \<^verbatim>\<open>null\<close> and
  for every other string.
\<close>

definition digitVal :: "char \<Rightarrow> int option" where
  "digitVal c = (let k = (of_char c :: nat) in if 48 \<le> k \<and> k \<le> 57 then Some (int k - 48) else None)"

fun digitsVal :: "int \<Rightarrow> string \<Rightarrow> int option" where
  "digitsVal acc [] = Some acc"
| "digitsVal acc (c # cs) =
     (case digitVal c of None \<Rightarrow> None | Some d \<Rightarrow> digitsVal (acc * 10 + d) cs)"

definition isLeapYear :: "int \<Rightarrow> bool" where
  "isLeapYear y = (y mod 400 = 0 \<or> (y mod 4 = 0 \<and> y mod 100 \<noteq> 0))"

definition daysInMonth :: "int \<Rightarrow> int \<Rightarrow> int" where
  "daysInMonth y m =
     (if m = 2 then (if isLeapYear y then 29 else 28)
      else if m = 4 \<or> m = 6 \<or> m = 9 \<or> m = 11 then 30 else 31)"

text \<open>Days from 1970-01-01 to the day \<open>d\<close> of month \<open>m\<close> of year \<open>y\<close> in the
  Gregorian calendar.\<close>

definition daysFromCivil :: "int \<Rightarrow> int \<Rightarrow> int \<Rightarrow> int" where
  "daysFromCivil y m d =
     (let y' = (if m \<le> 2 then y - 1 else y);
          era = y' div 400;
          yoe = y' - era * 400;
          doy = (153 * (if m > 2 then m - 3 else m + 9) + 2) div 5 + d - 1;
          doe = yoe * 365 + yoe div 4 - yoe div 100 + doy
      in era * 146097 + doe - 719468)"

definition parseISO_date :: "string option \<Rightarrow> Date" where
  "parseISO_date arg =
     (case arg of
        Some [y1, y2, y3, y4, s1, m1, m2, s2, d1, d2] \<Rightarrow>
          (if s1 = CHR ''-'' \<and> s2 = CHR ''-'' then
             (case (digitsVal 0 [y1, y2, y3, y4], digitsVal 0 [m1, m2], digitsVal 0 [d1, d2]) of
                (Some y, Some m, Some d) \<Rightarrow>
                  if 1 \<le> m \<and> m \<le> 12 \<and> 1 \<le> d \<and> d \<le> daysInMonth y m
                  then ValidDate (daysFromCivil y m d * msPerDay)
                  else InvalidDate
              | _ \<Rightarrow> InvalidDate)
           else InvalidDate)
      | _ \<Rightarrow> InvalidDate)"

section \<open>The aggregate of highlighted rules\<close>

text \<open>
  A booking entry of the form holds two strings. \<^verbatim>\<open>parseInt(s, 10)\<close> skips leading
  white space, reads an optional sign and the longest run of decimal digits, and is
  \<^verbatim>\<open>NaN\<close> when there is no digit. Characters are bytes, so white space is the ASCII
  white space.
\<close>

record bookingEntry =
  entry_startDate :: string
  entry_length :: string

definition isSpace :: "char \<Rightarrow> bool" where
  "isSpace c = (let k = (of_char c :: nat) in (9 \<le> k \<and> k \<le> 13) \<or> k = 32)"

definition isDigit :: "char \<Rightarrow> bool" where
  "isDigit c = (digitVal c \<noteq> None)"

definition parseInt :: "string \<Rightarrow> jsnum" where
  "parseInt str =
     (let s = dropWhile isSpace str;
          neg = (case s of [] \<Rightarrow> False | c # _ \<Rightarrow> c = CHR ''-'');
          body = (case s of [] \<Rightarrow> [] | c # cs \<Rightarrow> if c = CHR ''-'' \<or> c = CHR ''+'' then cs else s);
          ds = takeWhile isDigit body
      in case digitsVal 0 ds of
           None \<Rightarrow> NaN
         | Some v \<Rightarrow> if ds = [] then NaN else Num (if neg then - v else v))"

text \<open>The loop \<^verbatim>\<open>rules.forEach\<close> inside one booking entry: a matching rule's id is
  pushed unless \<^verbatim>\<open>ids\<close> includes it.\<close>

fun rulesForEach ::
  "(string option \<Rightarrow> Date) \<Rightarrow> 'f rule list \<Rightarrow> string \<Rightarrow> jsnum \<Rightarrow> Date \<Rightarrow> nat list \<Rightarrow> nat list" where
  "rulesForEach parseISO [] startDate len bookingDate ids = ids"
| "rulesForEach parseISO (rule # rules) startDate len bookingDate ids =
     rulesForEach parseISO rules startDate len bookingDate
       (if isBookingAllowedByRule parseISO rule (Some startDate) (Some len) bookingDate
        then (if rule_id rule \<notin> set ids then ids @ [rule_id rule] else ids)
        else ids)"

text \<open>The loop \<^verbatim>\<open>bookingEntries.forEach\<close>: an entry with an empty field is skipped.\<close>

fun entriesForEach ::
  "(string option \<Rightarrow> Date) \<Rightarrow> bookingEntry list \<Rightarrow> 'f rule list \<Rightarrow> Date \<Rightarrow> nat list \<Rightarrow> nat list" where
  "entriesForEach parseISO [] rules bookingDate ids = ids"
| "entriesForEach parseISO (entry # entries) rules bookingDate ids =
     entriesForEach parseISO entries rules bookingDate
       (if entry_startDate entry = [] \<or> entry_length entry = [] then ids
        else (let len = parseInt (entry_length entry)
              in rulesForEach parseISO rules (entry_startDate entry) len bookingDate ids))"

definition highlightedRuleIds ::
  "(string option \<Rightarrow> Date) \<Rightarrow> bookingEntry list \<Rightarrow> 'f rule list \<Rightarrow> Date \<Rightarrow> nat list" where
  "highlightedRuleIds parseISO bookingEntries rules bookingDate =
     entriesForEach parseISO bookingEntries rules bookingDate []"

section \<open>The rule parser\<close>

text \<open>
  The document that \<^verbatim>\<open>DOMParser\<close> returns is a tree of elements (tag name,
  attributes, child nodes) and text nodes, given by its root element. Tag names are
  plain names, without namespace prefixes. When the text is not well-formed the
  browser returns a document that holds a \<^verbatim>\<open>parsererror\<close> element.
\<close>

datatype node = Element string "(string \<times> string) list" "node list" | Text string

datatype error = InvalidXMLFile | RequestFailed

fun hasTag :: "string \<Rightarrow> node \<Rightarrow> bool" where
  "hasTag tag (Element t attrs kids) = (t = tag)"
| "hasTag tag (Text s) = False"

text \<open>The elements of a subtree in document order, the root of the subtree first.\<close>

fun elementsOf :: "node \<Rightarrow> node list" where
  "elementsOf (Text s) = []"
| "elementsOf (Element t attrs kids) = Element t attrs kids # concat (map elementsOf kids)"

fun childNodes :: "node \<Rightarrow> node list" where
  "childNodes (Element t attrs kids) = kids"
| "childNodes (Text s) = []"

definition descendants :: "node \<Rightarrow> node list" where
  "descendants n = concat (map elementsOf (childNodes n))"

text \<open>\<^verbatim>\<open>element.getElementsByTagName(tag)\<close>: the descendant elements with that tag, in
  document order. On the document the root element is a candidate too, as it is for
  \<^verbatim>\<open>doc.querySelector(tag)\<close>, which returns the first match.\<close>

definition getElementsByTagName :: "string \<Rightarrow> node \<Rightarrow> node list" where
  "getElementsByTagName tag n = filter (hasTag tag) (descendants n)"

definition docGetElementsByTagName :: "string \<Rightarrow> node \<Rightarrow> node list" where
  "docGetElementsByTagName tag doc = filter (hasTag tag) (elementsOf doc)"

definition querySelector :: "string \<Rightarrow> node \<Rightarrow> node option" where
  "querySelector tag doc = find (hasTag tag) (elementsOf doc)"

fun textContent :: "node \<Rightarrow> string" where
  "textContent (Text s) = s"
| "textContent (Element t attrs kids) = concat (map textContent kids)"

definition trim :: "string \<Rightarrow> string" where
  "trim s = rev (dropWhile isSpace (rev (dropWhile isSpace s)))"

text \<open>\<^verbatim>\<open>str.split(',')\<close>.\<close>

fun split :: "char \<Rightarrow> string \<Rightarrow> string list" where
  "split sep [] = [[]]"
| "split sep (c # cs) =
     (if c = sep then [] # split sep cs
      else (case split sep cs of [] \<Rightarrow> [[c]] | x # xs \<Rightarrow> (c # x) # xs))"

definition COLOURS :: "string list" where
  "COLOURS = [''#0072B2'', ''#D55E00'', ''#F0E442'', ''#009E73'',
              ''#CC79A7'', ''#56B4E9'', ''#E69F00'', ''#8B4513'']"

definition getTag :: "node \<Rightarrow> string \<Rightarrow> string option" where
  "getTag node tag =
     (case getElementsByTagName tag node of [] \<Rightarrow> None | el # _ \<Rightarrow> Some (trim (textContent el)))"

text \<open>\<^verbatim>\<open>getTag(t) ? f(getTag(t)) : d\<close>: the empty string is falsy, like \<^verbatim>\<open>null\<close>.\<close>

definition whenTag :: "string option \<Rightarrow> (string \<Rightarrow> 'a) \<Rightarrow> 'a \<Rightarrow> 'a" where
  "whenTag v f d = (case v of None \<Rightarrow> d | Some s \<Rightarrow> if s = [] then d else f s)"

text \<open>The callback of \<^verbatim>\<open>ruleNodes.map((node, idx) => ...)\<close>. \<^verbatim>\<open>XMLSerializer\<close> and
  \<^verbatim>\<open>parseFloat\<close> are parameters.\<close>

definition ruleOfNode :: "(node \<Rightarrow> string) \<Rightarrow> (string \<Rightarrow> 'f) \<Rightarrow> node \<Rightarrow> nat \<Rightarrow> 'f rule" where
  "ruleOfNode serializeToString parseFloat node idx =
     \<lparr> rule_id = idx + 1,
       rule_from = getTag node ''from'',
       rule_to = getTag node ''to'',
       percentage = whenTag (getTag node ''percentage'') (\<lambda>s. Some (parseFloat s)) None,
       arrivalWeekdays =
         whenTag (getTag node ''arrivalWeekdays'') (\<lambda>s. map parseInt (split CHR '','' s)) [],
       minStay = whenTag (getTag node ''minStay'') (\<lambda>s. Some (parseInt s)) None,
       maxStay = whenTag (getTag node ''maxStay'') (\<lambda>s. Some (parseInt s)) None,
       maxDaysToArrival = whenTag (getTag node ''maxDaysToArrival'') (\<lambda>s. Some (parseInt s)) None,
       colour = COLOURS ! (idx mod length COLOURS),
       originalXml = serializeToString node \<rparr>"

definition parseXmlRules ::
  "(node \<Rightarrow> string) \<Rightarrow> (string \<Rightarrow> 'f) \<Rightarrow> node \<Rightarrow> error + 'f rule list" where
  "parseXmlRules serializeToString parseFloat doc =
     (case querySelector ''parsererror'' doc of
        Some errorNode \<Rightarrow> Inl InvalidXMLFile
      | None \<Rightarrow>
          (let ruleNodes =
                 (case querySelector ''priceRules'' doc of
                    Some priceRulesNode \<Rightarrow> getElementsByTagName ''rule'' priceRulesNode
                  | None \<Rightarrow> docGetElementsByTagName ''rule'' doc)
           in Inr (map (\<lambda>(idx, node). ruleOfNode serializeToString parseFloat node idx)
                       (enumerate 0 ruleNodes))))"

section \<open>Merging the rules of several seasons\<close>

text \<open>
  \<^verbatim>\<open>fetchPriceRulesFromAPI\<close> either throws (the request failed, or the response is
  not XML) or returns the parsed rules. The loop over the seasons appends every batch
  that arrived and skips a season whose fetch threw; the ids are then assigned anew.
\<close>

definition fetchPriceRulesFromAPI ::
  "(node \<Rightarrow> string) \<Rightarrow> (string \<Rightarrow> 'f) \<Rightarrow> error + node \<Rightarrow> error + 'f rule list" where
  "fetchPriceRulesFromAPI serializeToString parseFloat response =
     (case response of
        Inl e \<Rightarrow> Inl e
      | Inr xml \<Rightarrow> parseXmlRules serializeToString parseFloat xml)"

fun seasonsLoop :: "(error + 'f rule list) list \<Rightarrow> 'f rule list \<Rightarrow> 'f rule list" where
  "seasonsLoop [] allRules = allRules"
| "seasonsLoop (fetched # rest) allRules =
     seasonsLoop rest (case fetched of Inr rules \<Rightarrow> allRules @ rules | Inl e \<Rightarrow> allRules)"

definition reassignIds :: "'f rule list \<Rightarrow> 'f rule list" where
  "reassignIds allRules =
     map (\<lambda>(index, rule). rule\<lparr>rule_id := index + 1\<rparr>) (enumerate 0 allRules)"

definition mergeSeasons :: "(error + 'f rule list) list \<Rightarrow> 'f rule list" where
  "mergeSeasons fetched = reassignIds (seasonsLoop fetched [])"

section \<open>Notions of the specification\<close>

text \<open>\<open>calendarDaysBetween reference arrival\<close>: the gap in calendar days from the
  reference date to the arrival date (negative when the arrival comes first).\<close>

definition calendarDaysBetween :: "int \<Rightarrow> int \<Rightarrow> int" where
  "calendarDaysBetween reference arrival = dayOf arrival - dayOf reference"

text \<open>The weekday of a time value in the convention of the rules: Monday is \<open>1\<close>,
  Sunday is \<open>7\<close>. Day \<open>0\<close> (1970-01-01) is a Thursday.\<close>

definition isoWeekday :: "int \<Rightarrow> int" where
  "isoWeekday ms = (dayOf ms + 3) mod 7 + 1"

text \<open>The list without its later duplicates: every element is kept where it is seen
  first.\<close>

fun firstSeen :: "'a list \<Rightarrow> 'a list" where
  "firstSeen [] = []"
| "firstSeen (x # xs) = x # firstSeen (removeAll x xs)"

text \<open>The batch query for one booking entry: the ids of the rules that match it, in the
  order of the rule set.\<close>

definition entryMatches ::
  "(string option \<Rightarrow> Date) \<Rightarrow> 'f rule \<Rightarrow> bookingEntry \<Rightarrow> Date \<Rightarrow> bool" where
  "entryMatches parseISO rule entry bookingDate =
     isBookingAllowedByRule parseISO rule (Some (entry_startDate entry))
       (Some (parseInt (entry_length entry))) bookingDate"

definition matchingRuleIds ::
  "(string option \<Rightarrow> Date) \<Rightarrow> 'f rule list \<Rightarrow> bookingEntry \<Rightarrow> Date \<Rightarrow> nat list" where
  "matchingRuleIds parseISO rules entry bookingDate =
     map rule_id (filter (\<lambda>rule. entryMatches parseISO rule entry bookingDate) rules)"

text \<open>One step of the loops: \<^verbatim>\<open>if (!ids.includes(i)) ids.push(i)\<close>.\<close>

definition pushNew :: "nat \<Rightarrow> nat list \<Rightarrow> nat list" where
  "pushNew i ids = (if i \<notin> set ids then ids @ [i] else ids)"

text \<open>The rule elements of a document, in document order. A document is well-formed for
  the parser when it holds no \<^verbatim>\<open>parsererror\<close> element. Its rules are a bare collection
  when no element is named \<^verbatim>\<open>priceRules\<close>, and a wrapped collection when the first
  \<^verbatim>\<open>priceRules\<close> element holds all the rule elements of the document.\<close>

definition ruleElements :: "node \<Rightarrow> node list" where
  "ruleElements doc = filter (hasTag ''rule'') (elementsOf doc)"

definition wellFormed :: "node \<Rightarrow> bool" where
  "wellFormed doc = (\<forall>e \<in> set (elementsOf doc). \<not> hasTag ''parsererror'' e)"

definition bareRules :: "node \<Rightarrow> bool" where
  "bareRules doc = (\<forall>e \<in> set (elementsOf doc). \<not> hasTag ''priceRules'' e)"

definition wrappedRules :: "node \<Rightarrow> bool" where
  "wrappedRules doc =
     (case find (hasTag ''priceRules'') (elementsOf doc) of
        None \<Rightarrow> False
      | Some p \<Rightarrow> length (filter (hasTag ''rule'') (descendants p)) = length (ruleElements doc))"





text \<open>The batches that arrived, in fetch order: a failed fetch contributes nothing.\<close>

definition arrivedRules :: "(error + 'f rule list) list \<Rightarrow> 'f rule list" where
  "arrivedRules fetched =
     concat (map (\<lambda>r. case r of Inl e \<Rightarrow> [] | Inr rules \<Rightarrow> rules) fetched)"



section \<open>Example data\<close>

text \<open>A rule for the whole year 2025 with no other restriction, and the rule of the
  end-to-end scenario of the specification.\<close>

definition openRule :: "unit rule" where
  "openRule =
     \<lparr> rule_id = 1, rule_from = Some ''2025-01-01'', rule_to = Some ''2025-12-31'',
       percentage = None, arrivalWeekdays = [], minStay = None,
       maxStay = None, maxDaysToArrival = None,
       colour = ''#0072B2'', originalXml = [] \<rparr>"

definition summerRule :: "unit rule" where
  "summerRule =
     \<lparr> rule_id = 1, rule_from = Some ''2025-06-01'', rule_to = Some ''2025-08-31'',
       percentage = None, arrivalWeekdays = [Num 6], minStay = Some (Num 7),
       maxStay = Some (Num 14), maxDaysToArrival = Some (Num 180),
       colour = ''#0072B2'', originalXml = [] \<rparr>"

text \<open>Three rules (January, the whole year, the summer) and two bookings: the first
  matches the rules 1 and 2, the second the rules 2 and 3.\<close>

definition threeRules :: "unit rule list" where
  "threeRules =
     [openRule\<lparr>rule_to := Some ''2025-01-12''\<rparr>,
      openRule\<lparr>rule_id := 2\<rparr>,
      openRule\<lparr>rule_id := 3, rule_from := Some ''2025-06-01'', rule_to := Some ''2025-08-31''\<rparr>]"

definition januaryBooking :: bookingEntry where
  "januaryBooking = \<lparr> entry_startDate = ''2025-01-11'', entry_length = ''3'' \<rparr>"

definition juneBooking :: bookingEntry where
  "juneBooking = \<lparr> entry_startDate = ''2025-06-07'', entry_length = ''3'' \<rparr>"

text \<open>Two rule elements (the first with white space, a duplicate \<^verbatim>\<open>from\<close> and all the
  fields, the second with the dates only), as a bare collection and as a collection
  under a \<^verbatim>\<open>priceRules\<close> element of a response. \<open>serialize\<close> stands for the
  \<^verbatim>\<open>XMLSerializer\<close> in the examples, and the identity for \<^verbatim>\<open>parseFloat\<close>.\<close>

definition summerRuleNode :: node where
  "summerRuleNode =
     Element ''rule'' []
       [Text '' '',
        Element ''from'' [] [Text ''2025-06-01''],
        Element ''to'' [] [Text ''2025-08-31''],
        Element ''percentage'' [] [Text ''10.5''],
        Element ''arrivalWeekdays'' [] [Text ''6,7''],
        Element ''minStay'' [] [Text '' 3 ''],
        Element ''maxStay'' [] [Text ''7''],
        Element ''maxDaysToArrival'' [] [Text ''180''],
        Element ''from'' [] [Text ''2099-01-01'']]"

definition plainRuleNode :: node where
  "plainRuleNode =
     Element ''rule'' []
       [Element ''from'' [] [Text ''2025-01-01''],
        Element ''to'' [] [Text ''2025-12-31'']]"

definition bareDocument :: node where
  "bareDocument = Element ''rules'' [] [summerRuleNode, plainRuleNode]"

definition nestedDocument :: node where
  "nestedDocument =
     Element ''response'' [(''status'', ''ok'')]
       [Element ''priceRules'' [] [summerRuleNode, plainRuleNode]]"

fun serialize :: "node \<Rightarrow> string" where
  "serialize (Text s) = s"
| "serialize (Element t attrs kids) =
     ''<'' @ t @ ''>'' @ concat (map serialize kids) @ ''</'' @ t @ ''>''"

definition parsedExample :: "string rule list" where
  "parsedExample =
     [\<lparr> rule_id = 1, rule_from = Some ''2025-06-01'', rule_to = Some ''2025-08-31'',
        percentage = Some ''10.5'', arrivalWeekdays = [Num 6, Num 7], minStay = Some (Num 3),
        maxStay = Some (Num 7), maxDaysToArrival = Some (Num 180),
        colour = ''#0072B2'', originalXml = serialize summerRuleNode \<rparr>,
      \<lparr> rule_id = 2, rule_from = Some ''2025-01-01'', rule_to = Some ''2025-12-31'',
        percentage = None, arrivalWeekdays = [], minStay = None,
        maxStay = None, maxDaysToArrival = None,
        colour = ''#D55E00'', originalXml = serialize plainRuleNode \<rparr>]"

text \<open>A rule whose \<^verbatim>\<open>from\<close> is not a date.\<close>

definition brokenRule :: "unit rule" where
  "brokenRule = openRule\<lparr>rule_from := Some ''not-a-date''\<rparr>"

text \<open>Two seasons, each fetched as one of the two example documents.\<close>

definition twoSeasons :: "(error + string rule list) list" where
  "twoSeasons =
     [fetchPriceRulesFromAPI serialize (\<lambda>s. s) (Inr bareDocument),
      fetchPriceRulesFromAPI serialize (\<lambda>s. s) (Inr nestedDocument)]"



section \<open>Properties of the evaluator\<close>

lemma allowed_unfold:
  "s \<noteq> [] \<Longrightarrow> truthy n \<Longrightarrow>
   isBookingAllowedByRule parseISO rule (Some s) (Some n) bcd =
     (\<not> isBefore (parseISO (Some s)) (parseISO (rule_from rule)) \<and>
      \<not> isAfter (parseISO (Some s)) (parseISO (rule_to rule)) \<and>
      \<not> stayFails rule n \<and>
      \<not> windowFails rule (parseISO (Some s)) bcd \<and>
      \<not> weekdayFails rule (parseISO (Some s)))"
  by (simp add: isBookingAllowedByRule_def Let_def)

lemmas check_defs = stayFails_def windowFails_def weekdayFails_def

lemmas date_defs = parseISO_date_def digitVal_def daysInMonth_def isLeapYear_def
  daysFromCivil_def msPerDay_def

lemma parse_2024_12_31: "parseISO_date (Some ''2024-12-31'') = ValidDate 1735603200000"
  by (simp add: date_defs)

lemma parse_2025_01_01: "parseISO_date (Some ''2025-01-01'') = ValidDate 1735689600000"
  by (simp add: date_defs)

lemma parse_2025_01_11: "parseISO_date (Some ''2025-01-11'') = ValidDate 1736553600000"
  by (simp add: date_defs)

lemma parse_2025_01_12: "parseISO_date (Some ''2025-01-12'') = ValidDate 1736640000000"
  by (simp add: date_defs)

lemma parse_2025_03_01: "parseISO_date (Some ''2025-03-01'') = ValidDate 1740787200000"
  by (simp add: date_defs)

lemma parse_2025_06_01: "parseISO_date (Some ''2025-06-01'') = ValidDate 1748736000000"
  by (simp add: date_defs)

lemma parse_2025_06_07: "parseISO_date (Some ''2025-06-07'') = ValidDate 1749254400000"
  by (simp add: date_defs)

lemma parse_2025_06_10: "parseISO_date (Some ''2025-06-10'') = ValidDate 1749513600000"
  by (simp add: date_defs)

lemma parse_2025_08_31: "parseISO_date (Some ''2025-08-31'') = ValidDate 1756598400000"
  by (simp add: date_defs)

lemma parse_2025_12_31: "parseISO_date (Some ''2025-12-31'') = ValidDate 1767139200000"
  by (simp add: date_defs)

lemma parse_2026_01_01: "parseISO_date (Some ''2026-01-01'') = ValidDate 1767225600000"
  by (simp add: date_defs)

lemma parse_not_a_date: "parseISO_date (Some ''not-a-date'') = InvalidDate"
  by (simp add: date_defs)

lemmas parse_dates = parse_2024_12_31 parse_2025_01_01 parse_2025_01_11 parse_2025_01_12
  parse_2025_03_01 parse_2025_06_01 parse_2025_06_07 parse_2025_06_10 parse_2025_08_31
  parse_2025_12_31 parse_2026_01_01 parse_not_a_date

text \<open>The end-to-end scenario of the specification: a Saturday arrival on 2025-06-07 for
  seven nights, booked on 2025-03-01, matches; five nights do not.\<close>

lemma scenario_matches:
  "isBookingAllowedByRule parseISO_date summerRule (Some ''2025-06-07'') (Some (Num 7))
     (ValidDate 1740787200000)"
  by (simp add: allowed_unfold summerRule_def parse_dates check_defs dayOf_def msPerDay_def)

lemma scenario_short_stay:
  "\<not> isBookingAllowedByRule parseISO_date summerRule (Some ''2025-06-07'') (Some (Num 5))
     (ValidDate 1740787200000)"
  by (simp add: allowed_unfold summerRule_def parse_dates check_defs)

lemma weekday_conv:
  "(if getDay (ValidDate a) = Num 0 then Num 7 else getDay (ValidDate a)) = Num (isoWeekday a)"
proof -
  define r where "r = (dayOf a + 3) mod 7"
  have r: "0 \<le> r" "r < 7"
    by (simp_all add: r_def)
  have "(dayOf a + 4) mod 7 = (r + 1) mod 7"
    unfolding r_def by (simp add: mod_simps add.commute)
  then have "(dayOf a + 4) mod 7 = (if r = 6 then 0 else r + 1)"
    using r by simp
  then show ?thesis
    using r by (simp add: isoWeekday_def r_def [symmetric])
qed

lemma open_rule_allows:
  "isBookingAllowedByRule parseISO_date openRule (Some ''2025-01-11'') (Some (Num 3))
     (ValidDate 1735689600000)"
  by (simp add: allowed_unfold openRule_def parse_dates check_defs)

text \<open>
  C7. When the booking's arrival date or stay length is absent or falsy, the evaluator
  returns false for every rule: the verdict does not depend on the rule, on the
  reference date or on what the date parser does (no date is parsed), and it is a
  verdict, the evaluator has no error result.
\<close>

theorem incomplete_booking_is_false:
  "falsyString startDate \<or> falsyNumber len \<Longrightarrow>
   isBookingAllowedByRule parseISO rule startDate len bookingCreationDate = False"
  by (cases len; cases startDate)
     (auto simp: isBookingAllowedByRule_def falsyString_def falsyNumber_def)

theorem incomplete_booking_is_false_witness:
  "(falsyString (Some []) \<or> falsyNumber (Some (Num 3))) \<and>
   isBookingAllowedByRule parseISO_date openRule (Some []) (Some (Num 3))
     (ValidDate 1735689600000) = False \<and>
   (falsyString (Some ''2025-01-11'') \<or> falsyNumber (Some NaN)) \<and>
   isBookingAllowedByRule parseISO_date openRule (Some ''2025-01-11'') (Some NaN)
     (ValidDate 1735689600000) = False \<and>
   isBookingAllowedByRule parseISO_date openRule (Some ''2025-01-11'') (Some (Num 3))
     (ValidDate 1735689600000) = True"
proof -
  have a: "falsyString (Some []) \<or> falsyNumber (Some (Num 3))"
    by (simp add: falsyString_def)
  have b: "falsyString (Some ''2025-01-11'') \<or> falsyNumber (Some NaN)"
    by (simp add: falsyNumber_def)
  show ?thesis
    using a b open_rule_allows
      incomplete_booking_is_false [where parseISO = parseISO_date and rule = openRule
        and bookingCreationDate = "ValidDate 1735689600000", OF a]
      incomplete_booking_is_false [where parseISO = parseISO_date and rule = openRule
        and bookingCreationDate = "ValidDate 1735689600000", OF b]
    by simp
qed

text \<open>
  C1. For a rule with \<open>maxDaysToArrival = m\<close> and a booking with a present arrival date
  and stay length, the booking-window check fails the rule exactly when the gap in
  calendar days from the reference date to the arrival date is greater than \<open>m\<close>:
  the verdict is that of the same rule without the field, and false when the gap
  exceeds \<open>m\<close>. A negative gap and a gap equal to \<open>m\<close> pass the check.
\<close>

theorem booking_window_check:
  assumes "s \<noteq> []" and "truthy n"
    and "maxDaysToArrival rule = Some (Num m)"
    and "parseISO (Some s) = ValidDate a"
  shows "isBookingAllowedByRule parseISO rule (Some s) (Some n) (ValidDate c) =
     (\<not> (calendarDaysBetween c a > m) \<and>
      isBookingAllowedByRule parseISO (rule\<lparr>maxDaysToArrival := None\<rparr>)
        (Some s) (Some n) (ValidDate c))"
  using assms by (auto simp: allowed_unfold check_defs calendarDaysBetween_def)

theorem booking_window_check_witness:
  "calendarDaysBetween 1735689600000 1736553600000 = 10 \<and>
   isBookingAllowedByRule parseISO_date (openRule\<lparr>maxDaysToArrival := Some (Num 10)\<rparr>)
      (Some ''2025-01-11'') (Some (Num 3)) (ValidDate 1735689600000) = True \<and>
   calendarDaysBetween 1735689600000 1736640000000 = 11 \<and>
   isBookingAllowedByRule parseISO_date (openRule\<lparr>maxDaysToArrival := Some (Num 10)\<rparr>)
      (Some ''2025-01-12'') (Some (Num 3)) (ValidDate 1735689600000) = False \<and>
   calendarDaysBetween 1736553600000 1735689600000 = - 10 \<and>
   isBookingAllowedByRule parseISO_date (openRule\<lparr>maxDaysToArrival := Some (Num 10)\<rparr>)
      (Some ''2025-01-01'') (Some (Num 3)) (ValidDate 1736553600000) = True"
proof -
  have r: "maxDaysToArrival (openRule\<lparr>maxDaysToArrival := Some (Num 10)\<rparr>) = Some (Num 10)"
    by simp
  have n: "truthy (Num 3)"
    by simp
  have g: "calendarDaysBetween 1735689600000 1736553600000 = 10"
    "calendarDaysBetween 1735689600000 1736640000000 = 11"
    "calendarDaysBetween 1736553600000 1735689600000 = - 10"
    by (simp_all add: calendarDaysBetween_def dayOf_def msPerDay_def)
  have o: "isBookingAllowedByRule parseISO_date
       (openRule\<lparr>maxDaysToArrival := Some (Num 10), maxDaysToArrival := None\<rparr>)
       (Some ''2025-01-11'') (Some (Num 3)) (ValidDate 1735689600000)"
    "isBookingAllowedByRule parseISO_date
       (openRule\<lparr>maxDaysToArrival := Some (Num 10), maxDaysToArrival := None\<rparr>)
       (Some ''2025-01-01'') (Some (Num 3)) (ValidDate 1736553600000)"
    by (simp_all add: allowed_unfold openRule_def parse_dates check_defs)
  show ?thesis
    using g o
      booking_window_check [where parseISO = parseISO_date and s = "''2025-01-11''"
        and c = 1735689600000, OF _ n r parse_2025_01_11]
      booking_window_check [where parseISO = parseISO_date and s = "''2025-01-12''"
        and c = 1735689600000, OF _ n r parse_2025_01_12]
      booking_window_check [where parseISO = parseISO_date and s = "''2025-01-01''"
        and c = 1736553600000, OF _ n r parse_2025_01_01]
    by simp
qed

text \<open>
  C2. For a rule whose \<open>from\<close> and \<open>to\<close> parse to dates \<open>f\<close> and \<open>t\<close> and a booking
  with a present stay length and an arrival date that parses to \<open>a\<close>, the date-range
  check fails the rule exactly when \<open>a < f\<close> or \<open>a > t\<close>: the verdict is false then, and
  it is the conjunction of the other three checks otherwise. Both ends are inclusive:
  \<open>a = f\<close> and \<open>a = t\<close> are not rejected by the comparison with that end.
\<close>

theorem date_range_check:
  assumes "s \<noteq> []" and "truthy n"
    and "parseISO (Some s) = ValidDate a"
    and "parseISO (rule_from rule) = ValidDate f"
    and "parseISO (rule_to rule) = ValidDate t"
  shows "isBookingAllowedByRule parseISO rule (Some s) (Some n) bcd =
     (\<not> (a < f \<or> a > t) \<and> \<not> stayFails rule n \<and>
      \<not> windowFails rule (ValidDate a) bcd \<and> \<not> weekdayFails rule (ValidDate a))"
  using assms by (auto simp: allowed_unfold)

theorem date_range_check_witness:
  "isBookingAllowedByRule parseISO_date openRule (Some ''2025-01-01'') (Some (Num 3))
     (ValidDate 1735689600000) = True \<and>
   isBookingAllowedByRule parseISO_date openRule (Some ''2024-12-31'') (Some (Num 3))
     (ValidDate 1735689600000) = False \<and>
   isBookingAllowedByRule parseISO_date openRule (Some ''2025-12-31'') (Some (Num 3))
     (ValidDate 1735689600000) = True \<and>
   isBookingAllowedByRule parseISO_date openRule (Some ''2026-01-01'') (Some (Num 3))
     (ValidDate 1735689600000) = False"
proof -
  have n: "truthy (Num 3)"
    by simp
  have f: "parseISO_date (rule_from openRule) = ValidDate 1735689600000"
    by (simp add: openRule_def parse_dates)
  have t: "parseISO_date (rule_to openRule) = ValidDate 1767139200000"
    by (simp add: openRule_def parse_dates)
  have o: "\<not> stayFails openRule (Num 3)" "\<And>a. \<not> windowFails openRule (ValidDate a) bcd"
    "\<And>a. \<not> weekdayFails openRule (ValidDate a)"
    by (simp_all add: openRule_def check_defs)
  show ?thesis
    using o
      date_range_check [where parseISO = parseISO_date and s = "''2025-01-01''"
        and bcd = "ValidDate 1735689600000", OF _ n parse_2025_01_01 f t]
      date_range_check [where parseISO = parseISO_date and s = "''2024-12-31''"
        and bcd = "ValidDate 1735689600000", OF _ n parse_2024_12_31 f t]
      date_range_check [where parseISO = parseISO_date and s = "''2025-12-31''"
        and bcd = "ValidDate 1735689600000", OF _ n parse_2025_12_31 f t]
      date_range_check [where parseISO = parseISO_date and s = "''2026-01-01''"
        and bcd = "ValidDate 1735689600000", OF _ n parse_2026_01_01 f t]
    by (simp add: openRule_def check_defs)
qed


text \<open>
  C3. For a booking with a present stay length and an arrival date that parses to \<open>a\<close>:
  a rule with non-empty \<open>arrivalWeekdays\<close> matches only if the weekday of \<open>a\<close>, in the
  convention Monday \<open>1\<close> to Sunday \<open>7\<close>, is a member, and then exactly when the rule
  without the restriction matches; a rule with empty \<open>arrivalWeekdays\<close> has the verdict
  of the other checks alone.
\<close>

theorem weekday_check:
  assumes "s \<noteq> []" and "truthy n"
    and "parseISO (Some s) = ValidDate a"
  shows "isBookingAllowedByRule parseISO rule (Some s) (Some n) bcd =
      ((arrivalWeekdays rule = [] \<or> Num (isoWeekday a) \<in> set (arrivalWeekdays rule)) \<and>
       isBookingAllowedByRule parseISO (rule\<lparr>arrivalWeekdays := []\<rparr>) (Some s) (Some n) bcd)
    \<and> isBookingAllowedByRule parseISO (rule\<lparr>arrivalWeekdays := []\<rparr>) (Some s) (Some n) bcd =
      (\<not> isBefore (ValidDate a) (parseISO (rule_from rule)) \<and>
       \<not> isAfter (ValidDate a) (parseISO (rule_to rule)) \<and>
       \<not> stayFails rule n \<and> \<not> windowFails rule (ValidDate a) bcd)"
  using assms weekday_conv [of a]
  by (auto simp: allowed_unfold check_defs Let_def)

theorem weekday_check_witness:
  "isoWeekday 1749513600000 = 2 \<and>
   isBookingAllowedByRule parseISO_date (openRule\<lparr>arrivalWeekdays := [Num 6, Num 7]\<rparr>)
     (Some ''2025-06-10'') (Some (Num 3)) (ValidDate 1735689600000) = False \<and>
   isoWeekday 1749254400000 = 6 \<and>
   isBookingAllowedByRule parseISO_date (openRule\<lparr>arrivalWeekdays := [Num 6, Num 7]\<rparr>)
     (Some ''2025-06-07'') (Some (Num 3)) (ValidDate 1735689600000) = True \<and>
   isBookingAllowedByRule parseISO_date openRule
     (Some ''2025-06-10'') (Some (Num 3)) (ValidDate 1735689600000) = True"
proof -
  have n: "truthy (Num 3)"
    by simp
  have w: "isoWeekday 1749513600000 = 2" "isoWeekday 1749254400000 = 6"
    by (simp_all add: isoWeekday_def dayOf_def msPerDay_def)
  show ?thesis
    using w
      weekday_check [where parseISO = parseISO_date and s = "''2025-06-10''"
        and rule = "openRule\<lparr>arrivalWeekdays := [Num 6, Num 7]\<rparr>"
        and bcd = "ValidDate 1735689600000", OF _ n parse_2025_06_10]
      weekday_check [where parseISO = parseISO_date and s = "''2025-06-07''"
        and rule = "openRule\<lparr>arrivalWeekdays := [Num 6, Num 7]\<rparr>"
        and bcd = "ValidDate 1735689600000", OF _ n parse_2025_06_07]
      weekday_check [where parseISO = parseISO_date and s = "''2025-06-10''"
        and rule = openRule
        and bcd = "ValidDate 1735689600000", OF _ n parse_2025_06_10]
    by (simp add: openRule_def parse_dates check_defs)
qed

text \<open>
  C4. For a rule whose \<open>minStay\<close> and \<open>maxStay\<close>, when set, are positive integers and a
  booking with a present arrival date and a non-zero stay length \<open>n\<close>, the stay-length
  check fails the rule exactly when \<open>minStay\<close> is set and \<open>n\<close> is less, or \<open>maxStay\<close> is
  set and \<open>n\<close> is greater: the verdict is false then, and otherwise that of the same
  rule with both bounds absent. Both bounds are inclusive.
\<close>

theorem stay_length_check:
  assumes "s \<noteq> []" and "n \<noteq> 0"
    and "\<And>m. minStay rule = Some m \<Longrightarrow> \<exists>k>0. m = Num k"
    and "\<And>m. maxStay rule = Some m \<Longrightarrow> \<exists>k>0. m = Num k"
  shows "isBookingAllowedByRule parseISO rule (Some s) (Some (Num n)) bcd =
     (\<not> ((\<exists>k. minStay rule = Some (Num k) \<and> n < k) \<or>
         (\<exists>k. maxStay rule = Some (Num k) \<and> n > k)) \<and>
      isBookingAllowedByRule parseISO (rule\<lparr>minStay := None, maxStay := None\<rparr>)
        (Some s) (Some (Num n)) bcd)"
proof -
  have "stayFails rule (Num n) =
      ((\<exists>k. minStay rule = Some (Num k) \<and> n < k) \<or> (\<exists>k. maxStay rule = Some (Num k) \<and> n > k))"
    using assms(3,4) by (cases "minStay rule"; cases "maxStay rule") (auto simp: stayFails_def)
  moreover have "\<not> stayFails (rule\<lparr>minStay := None, maxStay := None\<rparr>) (Num n)"
    by (simp add: stayFails_def)
  ultimately show ?thesis
    using assms(1,2) by (auto simp: allowed_unfold windowFails_def weekdayFails_def)
qed

theorem stay_length_check_witness:
  "isBookingAllowedByRule parseISO_date (openRule\<lparr>minStay := Some (Num 3), maxStay := Some (Num 7)\<rparr>)
     (Some ''2025-01-11'') (Some (Num 2)) (ValidDate 1735689600000) = False \<and>
   isBookingAllowedByRule parseISO_date (openRule\<lparr>minStay := Some (Num 3), maxStay := Some (Num 7)\<rparr>)
     (Some ''2025-01-11'') (Some (Num 3)) (ValidDate 1735689600000) = True \<and>
   isBookingAllowedByRule parseISO_date (openRule\<lparr>minStay := Some (Num 3), maxStay := Some (Num 7)\<rparr>)
     (Some ''2025-01-11'') (Some (Num 7)) (ValidDate 1735689600000) = True \<and>
   isBookingAllowedByRule parseISO_date (openRule\<lparr>minStay := Some (Num 3), maxStay := Some (Num 7)\<rparr>)
     (Some ''2025-01-11'') (Some (Num 8)) (ValidDate 1735689600000) = False"
proof -
  let ?r = "openRule\<lparr>minStay := Some (Num 3), maxStay := Some (Num 7)\<rparr>"
  have lo: "\<And>m. minStay ?r = Some m \<Longrightarrow> \<exists>k>0. m = Num k"
    by simp
  have hi: "\<And>m. maxStay ?r = Some m \<Longrightarrow> \<exists>k>0. m = Num k"
    by simp
  have o: "\<And>n. n \<noteq> 0 \<Longrightarrow> isBookingAllowedByRule parseISO_date (?r\<lparr>minStay := None, maxStay := None\<rparr>)
      (Some ''2025-01-11'') (Some (Num n)) (ValidDate 1735689600000)"
    by (simp add: allowed_unfold openRule_def parse_dates check_defs)
  show ?thesis
    using o [of 3] o [of 7]
      stay_length_check [where parseISO = parseISO_date and s = "''2025-01-11''" and n = 2
        and rule = ?r and bcd = "ValidDate 1735689600000", OF _ _ lo hi]
      stay_length_check [where parseISO = parseISO_date and s = "''2025-01-11''" and n = 3
        and rule = ?r and bcd = "ValidDate 1735689600000", OF _ _ lo hi]
      stay_length_check [where parseISO = parseISO_date and s = "''2025-01-11''" and n = 7
        and rule = ?r and bcd = "ValidDate 1735689600000", OF _ _ lo hi]
      stay_length_check [where parseISO = parseISO_date and s = "''2025-01-11''" and n = 8
        and rule = ?r and bcd = "ValidDate 1735689600000", OF _ _ lo hi]
    by simp
qed

text \<open>
  C10. Zero in an optional numeric field: a rule whose \<open>minStay\<close> (or \<open>maxStay\<close>) is the
  number \<open>0\<close> has, on every input, the verdict of the same rule with the field absent,
  whereas a rule whose \<open>maxDaysToArrival\<close> is \<open>0\<close> is enforced: it fails every booking
  whose gap in calendar days from the reference date to the arrival date is positive.
\<close>

theorem zero_valued_fields:
  "isBookingAllowedByRule parseISO (rule\<lparr>minStay := Some (Num 0)\<rparr>) sd len bcd =
     isBookingAllowedByRule parseISO (rule\<lparr>minStay := None\<rparr>) sd len bcd \<and>
   isBookingAllowedByRule parseISO (rule\<lparr>maxStay := Some (Num 0)\<rparr>) sd len bcd =
     isBookingAllowedByRule parseISO (rule\<lparr>maxStay := None\<rparr>) sd len bcd \<and>
   (parseISO sd = ValidDate a \<and> calendarDaysBetween c a > 0 \<longrightarrow>
     isBookingAllowedByRule parseISO (rule\<lparr>maxDaysToArrival := Some (Num 0)\<rparr>) sd len (ValidDate c)
       = False)"
proof -
  have "stayFails (rule\<lparr>minStay := Some (Num 0)\<rparr>) n = stayFails (rule\<lparr>minStay := None\<rparr>) n"
    "stayFails (rule\<lparr>maxStay := Some (Num 0)\<rparr>) n = stayFails (rule\<lparr>maxStay := None\<rparr>) n" for n
    by (simp_all add: stayFails_def)
  then have stay: "isBookingAllowedByRule parseISO (rule\<lparr>minStay := Some (Num 0)\<rparr>) sd len bcd =
     isBookingAllowedByRule parseISO (rule\<lparr>minStay := None\<rparr>) sd len bcd"
    "isBookingAllowedByRule parseISO (rule\<lparr>maxStay := Some (Num 0)\<rparr>) sd len bcd =
     isBookingAllowedByRule parseISO (rule\<lparr>maxStay := None\<rparr>) sd len bcd"
    by (simp_all add: isBookingAllowedByRule_def windowFails_def weekdayFails_def
        split: option.splits)
  have "windowFails (rule\<lparr>maxDaysToArrival := Some (Num 0)\<rparr>) (ValidDate a) (ValidDate c)"
    if "calendarDaysBetween c a > 0"
    using that by (simp add: windowFails_def calendarDaysBetween_def)
  then have window: "parseISO sd = ValidDate a \<and> calendarDaysBetween c a > 0 \<longrightarrow>
     isBookingAllowedByRule parseISO (rule\<lparr>maxDaysToArrival := Some (Num 0)\<rparr>) sd len (ValidDate c)
       = False"
    by (auto simp: isBookingAllowedByRule_def Let_def split: option.splits)
  show ?thesis
    using stay window by blast
qed

theorem zero_valued_fields_witness:
  "isBookingAllowedByRule parseISO_date (openRule\<lparr>maxStay := Some (Num 0)\<rparr>)
     (Some ''2025-01-11'') (Some (Num 3)) (ValidDate 1735689600000) = True \<and>
   isBookingAllowedByRule parseISO_date (openRule\<lparr>minStay := Some (Num 0)\<rparr>)
     (Some ''2025-01-11'') (Some (Num (- 1))) (ValidDate 1735689600000) = True \<and>
   calendarDaysBetween 1735689600000 1736553600000 > 0 \<and>
   isBookingAllowedByRule parseISO_date (openRule\<lparr>maxDaysToArrival := Some (Num 0)\<rparr>)
     (Some ''2025-01-11'') (Some (Num 3)) (ValidDate 1735689600000) = False \<and>
   isBookingAllowedByRule parseISO_date (openRule\<lparr>maxDaysToArrival := None\<rparr>)
     (Some ''2025-01-11'') (Some (Num 3)) (ValidDate 1735689600000) = True"
proof -
  have g: "calendarDaysBetween 1735689600000 1736553600000 > 0"
    by (simp add: calendarDaysBetween_def dayOf_def msPerDay_def)
  have o: "\<And>n. n \<noteq> 0 \<Longrightarrow> isBookingAllowedByRule parseISO_date (openRule\<lparr>maxStay := None\<rparr>)
      (Some ''2025-01-11'') (Some (Num n)) (ValidDate 1735689600000)"
    "\<And>n. n \<noteq> 0 \<Longrightarrow> isBookingAllowedByRule parseISO_date (openRule\<lparr>minStay := None\<rparr>)
      (Some ''2025-01-11'') (Some (Num n)) (ValidDate 1735689600000)"
    "isBookingAllowedByRule parseISO_date (openRule\<lparr>maxDaysToArrival := None\<rparr>)
      (Some ''2025-01-11'') (Some (Num 3)) (ValidDate 1735689600000)"
    by (simp_all add: allowed_unfold openRule_def parse_dates check_defs)
  show ?thesis
    using g o(1) [of 3] o(2) [of "- 1"] o(3) parse_2025_01_11
      zero_valued_fields [where parseISO = parseISO_date and rule = openRule
        and sd = "Some ''2025-01-11''" and len = "Some (Num 3)"
        and bcd = "ValidDate 1735689600000" and a = 1736553600000 and c = 1735689600000]
      zero_valued_fields [where parseISO = parseISO_date and rule = openRule
        and sd = "Some ''2025-01-11''" and len = "Some (Num (- 1))"
        and bcd = "ValidDate 1735689600000" and a = 1736553600000 and c = 1735689600000]
    by simp
qed

section \<open>Properties of the aggregate\<close>

lemma parseInt_empty: "parseInt [] = NaN"
  by (simp add: parseInt_def)

lemma set_firstSeen: "set (firstSeen xs) = set xs"
  by (induction xs rule: firstSeen.induct) auto

lemma distinct_firstSeen: "distinct (firstSeen xs)"
  by (induction xs rule: firstSeen.induct) (auto simp: set_firstSeen)

lemma fold_pushNew:
  "distinct ids \<Longrightarrow> fold pushNew xs ids = ids @ firstSeen (filter (\<lambda>x. x \<notin> set ids) xs)"
proof (induction xs arbitrary: ids)
  case Nil
  then show ?case by simp
next
  case (Cons x xs)
  show ?case
  proof (cases "x \<in> set ids")
    case True
    then show ?thesis
      using Cons by (simp add: pushNew_def)
  next
    case False
    have "removeAll x (filter (\<lambda>y. y \<notin> set ids) xs) = filter (\<lambda>y. y \<notin> set (ids @ [x])) xs"
      by (auto simp: removeAll_filter_not_eq intro: filter_cong)
    moreover have "distinct (ids @ [x])"
      using False Cons.prems by simp
    ultimately show ?thesis
      using False Cons.IH [of "ids @ [x]"] by (simp add: pushNew_def)
  qed
qed

lemma rulesForEach_fold:
  "rulesForEach parseISO rules sd len bd ids =
     fold pushNew (map rule_id (filter (\<lambda>rule. isBookingAllowedByRule parseISO rule (Some sd) (Some len) bd) rules)) ids"
  by (induction rules arbitrary: ids) (simp_all add: pushNew_def)

lemma skipped_entry:
  "entry_startDate entry = [] \<or> entry_length entry = [] \<Longrightarrow>
   matchingRuleIds parseISO rules entry bd = []"
  by (auto simp: matchingRuleIds_def entryMatches_def isBookingAllowedByRule_def parseInt_empty)

lemma entriesForEach_fold:
  "entriesForEach parseISO entries rules bd ids =
     fold pushNew (concat (map (\<lambda>e. matchingRuleIds parseISO rules e bd) entries)) ids"
proof (induction entries arbitrary: ids)
  case Nil
  then show ?case by simp
next
  case (Cons e es)
  show ?case
  proof (cases "entry_startDate e = [] \<or> entry_length e = []")
    case True
    then show ?thesis
      using Cons [of ids] by (simp add: skipped_entry [OF True])
  next
    case False
    then show ?thesis
      using Cons by (simp add: rulesForEach_fold matchingRuleIds_def entryMatches_def)
  qed
qed

lemma highlighted_firstSeen:
  "highlightedRuleIds parseISO entries rules bd =
     firstSeen (concat (map (\<lambda>e. matchingRuleIds parseISO rules e bd) entries))"
  by (simp add: highlightedRuleIds_def entriesForEach_fold fold_pushNew)

text \<open>
  C8. For every list of booking entries and every rule set, the highlighted rule ids are
  the ids matched by each booking, concatenated in the order of the bookings (and, for
  one booking, in the order of the rule set), with every id kept where it is seen first:
  no id occurs twice, and an id occurs exactly when a rule with that id matches one of
  the bookings.
\<close>

theorem highlighted_union:
  "highlightedRuleIds parseISO entries rules bd =
     firstSeen (concat (map (\<lambda>e. matchingRuleIds parseISO rules e bd) entries)) \<and>
   distinct (highlightedRuleIds parseISO entries rules bd) \<and>
   (\<forall>i. i \<in> set (highlightedRuleIds parseISO entries rules bd) \<longleftrightarrow>
      (\<exists>e \<in> set entries. \<exists>rule \<in> set rules.
         rule_id rule = i \<and> entryMatches parseISO rule e bd))"
  by (auto simp: highlighted_firstSeen distinct_firstSeen set_firstSeen matchingRuleIds_def)

lemma parseInt_3: "parseInt ''3'' = Num 3"
  by (simp add: parseInt_def isSpace_def isDigit_def digitVal_def)

lemma january_ids: "matchingRuleIds parseISO_date threeRules januaryBooking (ValidDate 1735689600000) = [1, 2]"
  by (simp add: matchingRuleIds_def entryMatches_def threeRules_def januaryBooking_def
      parseInt_3 allowed_unfold openRule_def parse_dates check_defs)

lemma june_ids: "matchingRuleIds parseISO_date threeRules juneBooking (ValidDate 1735689600000) = [2, 3]"
  by (simp add: matchingRuleIds_def entryMatches_def threeRules_def juneBooking_def
      parseInt_3 allowed_unfold openRule_def parse_dates check_defs)

theorem highlighted_union_witness:
  "matchingRuleIds parseISO_date threeRules januaryBooking (ValidDate 1735689600000) = [1, 2] \<and>
   matchingRuleIds parseISO_date threeRules juneBooking (ValidDate 1735689600000) = [2, 3] \<and>
   highlightedRuleIds parseISO_date [januaryBooking, juneBooking] threeRules
     (ValidDate 1735689600000) = [1, 2, 3]"
  using highlighted_union [where parseISO = parseISO_date and rules = threeRules
      and entries = "[januaryBooking, juneBooking]" and bd = "ValidDate 1735689600000"]
  by (simp add: january_ids june_ids)

section \<open>Properties of the parser\<close>


lemma subseq_concat_member:
  "x \<in> set xs \<Longrightarrow> subseq (f x) (concat (map f xs))"
proof (induction xs)
  case Nil
  then show ?case by simp
next
  case (Cons y ys)
  then show ?case
    by (auto intro: subseq_drop_many subseq_rev_drop_many)
qed

lemma subseq_elementsOf:
  "e \<in> set (elementsOf n) \<Longrightarrow> subseq (elementsOf e) (elementsOf n)"
proof (induction n)
  case (Text s)
  then show ?case by simp
next
  case (Element t a kids)
  show ?case
  proof (cases "e = Element t a kids")
    case True
    then show ?thesis by simp
  next
    case False
    then obtain c where c: "c \<in> set kids" "e \<in> set (elementsOf c)"
      using Element.prems by auto
    have "subseq (elementsOf e) (elementsOf c)"
      using Element.IH [OF c] .
    moreover have "subseq (elementsOf c) (concat (map elementsOf kids))"
      using c(1) by (rule subseq_concat_member)
    ultimately have "subseq (elementsOf e) (concat (map elementsOf kids))"
      by (rule subseq_order.trans)
    then show ?thesis
      by (simp add: list_emb_Cons)
  qed
qed

lemma subseq_descendants:
  assumes "e \<in> set (elementsOf n)"
  shows "subseq (descendants e) (elementsOf n)"
proof -
  have "subseq (descendants e) (elementsOf e)"
    by (cases e) (simp_all add: descendants_def list_emb_Cons)
  then show ?thesis
    using subseq_elementsOf [OF assms] by (rule subseq_order.trans)
qed

lemma wrapped_rule_nodes:
  assumes "querySelector ''priceRules'' doc = Some p" and "wrappedRules doc"
  shows "getElementsByTagName ''rule'' p = ruleElements doc"
proof -
  have f: "find (hasTag ''priceRules'') (elementsOf doc) = Some p"
    using assms(1) by (simp add: querySelector_def)
  then have "p \<in> set (elementsOf doc)"
    by (auto simp: find_Some_iff)
  then have "subseq (filter (hasTag ''rule'') (descendants p)) (ruleElements doc)"
    unfolding ruleElements_def by (intro subseq_filter subseq_descendants)
  moreover have "length (filter (hasTag ''rule'') (descendants p)) = length (ruleElements doc)"
    using assms(2) f by (simp add: wrappedRules_def)
  ultimately show ?thesis
    unfolding getElementsByTagName_def by (rule subseq_same_length)
qed

lemma rule_nodes:
  assumes "wellFormed doc" and "bareRules doc \<or> wrappedRules doc"
  shows "parseXmlRules ser pf doc =
     Inr (map (\<lambda>(idx, node). ruleOfNode ser pf node idx) (enumerate 0 (ruleElements doc)))"
proof -
  have e: "querySelector ''parsererror'' doc = None"
    using assms(1) by (simp add: wellFormed_def querySelector_def find_None_iff)
  show ?thesis
  proof (cases "querySelector ''priceRules'' doc")
    case None
    then show ?thesis
      by (simp add: parseXmlRules_def e docGetElementsByTagName_def ruleElements_def)
  next
    case (Some p)
    then have "\<not> bareRules doc"
      by (auto simp: bareRules_def querySelector_def find_Some_iff)
    then have "wrappedRules doc"
      using assms(2) by simp
    then show ?thesis
      using Some by (simp add: parseXmlRules_def e wrapped_rule_nodes)
  qed
qed





lemmas dom_defs = querySelector_def getElementsByTagName_def docGetElementsByTagName_def
  descendants_def getTag_def whenTag_def trim_def isSpace_def

lemmas int_defs = parseInt_def isDigit_def digitVal_def

lemma summer_record:
  "ruleOfNode ser (\<lambda>s. s) summerRuleNode 0 =
     \<lparr> rule_id = 1, rule_from = Some ''2025-06-01'', rule_to = Some ''2025-08-31'',
        percentage = Some ''10.5'', arrivalWeekdays = [Num 6, Num 7], minStay = Some (Num 3),
        maxStay = Some (Num 7), maxDaysToArrival = Some (Num 180),
        colour = ''#0072B2'', originalXml = ser summerRuleNode \<rparr>"
  by (simp add: ruleOfNode_def summerRuleNode_def dom_defs int_defs COLOURS_def)

lemma plain_record:
  "ruleOfNode ser (\<lambda>s. s) plainRuleNode (Suc 0) =
     \<lparr> rule_id = 2, rule_from = Some ''2025-01-01'', rule_to = Some ''2025-12-31'',
        percentage = None, arrivalWeekdays = [], minStay = None,
        maxStay = None, maxDaysToArrival = None,
        colour = ''#D55E00'', originalXml = ser plainRuleNode \<rparr>"
  by (simp add: ruleOfNode_def plainRuleNode_def dom_defs int_defs COLOURS_def)

lemma rule_nodes_elements:
  "elementsOf summerRuleNode = summerRuleNode # descendants summerRuleNode"
  "elementsOf plainRuleNode = plainRuleNode # descendants plainRuleNode"
  "filter (hasTag ''rule'') (descendants summerRuleNode) = []"
  "filter (hasTag ''rule'') (descendants plainRuleNode) = []"
  "filter (hasTag ''priceRules'') (descendants summerRuleNode) = []"
  "filter (hasTag ''priceRules'') (descendants plainRuleNode) = []"
  "filter (hasTag ''parsererror'') (descendants summerRuleNode) = []"
  "filter (hasTag ''parsererror'') (descendants plainRuleNode) = []"
  "hasTag ''rule'' summerRuleNode" "hasTag ''rule'' plainRuleNode"
  by (simp_all add: summerRuleNode_def plainRuleNode_def descendants_def)

lemma bare_rule_elements: "ruleElements bareDocument = [summerRuleNode, plainRuleNode]"
  by (simp add: ruleElements_def bareDocument_def rule_nodes_elements)

lemma nested_rule_elements: "ruleElements nestedDocument = [summerRuleNode, plainRuleNode]"
  by (simp add: ruleElements_def nestedDocument_def rule_nodes_elements)

lemma example_shapes:
  "wellFormed bareDocument" "bareRules bareDocument"
  "wellFormed nestedDocument" "wrappedRules nestedDocument"
  by (simp_all add: wellFormed_def bareRules_def wrappedRules_def ruleElements_def
      bareDocument_def nestedDocument_def summerRuleNode_def plainRuleNode_def descendants_def)










section \<open>Properties of the merge\<close>

lemma arrivedRules_append: "arrivedRules (xs @ ys) = arrivedRules xs @ arrivedRules ys"
  by (simp add: arrivedRules_def)

lemma seasonsLoop_append: "seasonsLoop fetched acc = acc @ arrivedRules fetched"
  by (induction fetched arbitrary: acc) (auto simp: arrivedRules_def split: sum.splits)

lemma mergeSeasons_nth:
  "i < length (arrivedRules fetched) \<Longrightarrow>
   mergeSeasons fetched ! i = (arrivedRules fetched ! i)\<lparr>rule_id := i + 1\<rparr>"
  by (simp add: mergeSeasons_def reassignIds_def seasonsLoop_append nth_enumerate_eq)

lemma length_mergeSeasons: "length (mergeSeasons fetched) = length (arrivedRules fetched)"
  by (simp add: mergeSeasons_def reassignIds_def seasonsLoop_append)

lemma parse_nth:
  assumes "parseXmlRules ser pf doc = Inr rs" and "j < length rs"
  shows "colour (rs ! j) = COLOURS ! (j mod length COLOURS)" and "rule_id (rs ! j) = j + 1"
proof -
  obtain nodes where rs: "rs = map (\<lambda>(idx, node). ruleOfNode ser pf node idx) (enumerate 0 nodes)"
    using assms(1) by (auto simp: parseXmlRules_def Let_def split: option.splits)
  then have "rs ! j = ruleOfNode ser pf (nodes ! j) j"
    using assms(2) by (simp add: nth_enumerate_eq)
  then show "colour (rs ! j) = COLOURS ! (j mod length COLOURS)" and "rule_id (rs ! j) = j + 1"
    by (simp_all add: ruleOfNode_def)
qed

lemma arrivedRules_Cons_Inr: "arrivedRules (Inr rs # xs) = rs @ arrivedRules xs"
  by (simp add: arrivedRules_def)

lemma arrived_batch_nth:
  assumes "k < length fetched" and "fetched ! k = Inr rs" and "j < length rs"
  shows "arrivedRules fetched ! (length (arrivedRules (take k fetched)) + j) = rs ! j"
    and "length (arrivedRules (take k fetched)) + j < length (arrivedRules fetched)"
proof -
  have "fetched = take k fetched @ Inr rs # drop (Suc k) fetched"
    using id_take_nth_drop [OF assms(1)] assms(2) by simp
  then have "arrivedRules fetched =
      arrivedRules (take k fetched @ Inr rs # drop (Suc k) fetched)"
    by simp
  then have "arrivedRules fetched =
      arrivedRules (take k fetched) @ rs @ arrivedRules (drop (Suc k) fetched)"
    by (simp only: arrivedRules_append arrivedRules_Cons_Inr)
  then show "arrivedRules fetched ! (length (arrivedRules (take k fetched)) + j) = rs ! j"
    and "length (arrivedRules (take k fetched)) + j < length (arrivedRules fetched)"
    using assms(3) by (simp_all add: nth_append)
qed

text \<open>
  C9. Merging the batches of several fetches concatenates the batches that arrived in
  fetch order and assigns to each rule its position, counted from one, as id; every other
  field of a rule is the one of the rule at that position of the concatenation. A rule
  that was the \<open>j\<close>-th of a batch returned by the parser keeps the colour
  \<open>COLOURS ! (j mod 8)\<close> of its batch, whatever its new id.
\<close>

theorem merge_reassigns_ids_only:
  "length (mergeSeasons fetched) = length (arrivedRules fetched) \<and>
   (\<forall>i < length (arrivedRules fetched).
      rule_id (mergeSeasons fetched ! i) = i + 1 \<and>
      rule_from (mergeSeasons fetched ! i) = rule_from (arrivedRules fetched ! i) \<and>
      rule_to (mergeSeasons fetched ! i) = rule_to (arrivedRules fetched ! i) \<and>
      percentage (mergeSeasons fetched ! i) = percentage (arrivedRules fetched ! i) \<and>
      arrivalWeekdays (mergeSeasons fetched ! i) = arrivalWeekdays (arrivedRules fetched ! i) \<and>
      minStay (mergeSeasons fetched ! i) = minStay (arrivedRules fetched ! i) \<and>
      maxStay (mergeSeasons fetched ! i) = maxStay (arrivedRules fetched ! i) \<and>
      maxDaysToArrival (mergeSeasons fetched ! i) = maxDaysToArrival (arrivedRules fetched ! i) \<and>
      colour (mergeSeasons fetched ! i) = colour (arrivedRules fetched ! i) \<and>
      originalXml (mergeSeasons fetched ! i) = originalXml (arrivedRules fetched ! i)) \<and>
   (\<forall>k < length fetched. \<forall>rs. \<forall>j < length rs.
      fetched ! k = fetchPriceRulesFromAPI serializeToString parseFloat response \<and>
      fetched ! k = Inr rs \<longrightarrow>
        rule_id (rs ! j) = j + 1 \<and>
        rule_id (mergeSeasons fetched ! (length (arrivedRules (take k fetched)) + j)) =
          length (arrivedRules (take k fetched)) + j + 1 \<and>
        colour (mergeSeasons fetched ! (length (arrivedRules (take k fetched)) + j)) =
          COLOURS ! (j mod length COLOURS))"
proof (intro conjI allI impI)
  fix k rs j
  assume k: "k < length fetched" and j: "j < length rs"
    and f: "fetched ! k = fetchPriceRulesFromAPI serializeToString parseFloat response \<and>
      fetched ! k = Inr rs"
  obtain doc where doc: "parseXmlRules serializeToString parseFloat doc = Inr rs"
    using f by (auto simp: fetchPriceRulesFromAPI_def split: sum.splits)
  note b = arrived_batch_nth [OF k conjunct2 [OF f] j]
  show "rule_id (rs ! j) = j + 1"
    using parse_nth(2) [OF doc j] .
  show "rule_id (mergeSeasons fetched ! (length (arrivedRules (take k fetched)) + j)) =
          length (arrivedRules (take k fetched)) + j + 1"
    using b(2) by (simp add: mergeSeasons_nth)
  show "colour (mergeSeasons fetched ! (length (arrivedRules (take k fetched)) + j)) =
          COLOURS ! (j mod length COLOURS)"
    using b parse_nth(1) [OF doc j] by (simp add: mergeSeasons_nth)
qed (simp_all add: length_mergeSeasons mergeSeasons_nth)

lemma fetch_examples:
  "fetchPriceRulesFromAPI serialize (\<lambda>s. s) (Inr bareDocument) = Inr parsedExample"
  "fetchPriceRulesFromAPI serialize (\<lambda>s. s) (Inr nestedDocument) = Inr parsedExample"
proof -
  have b: "bareRules bareDocument \<or> wrappedRules bareDocument"
    and n: "bareRules nestedDocument \<or> wrappedRules nestedDocument"
    using example_shapes by simp_all
  show "fetchPriceRulesFromAPI serialize (\<lambda>s. s) (Inr bareDocument) = Inr parsedExample"
    by (simp add: fetchPriceRulesFromAPI_def rule_nodes [OF example_shapes(1) b]
        bare_rule_elements enumerate_eq_zip summer_record plain_record parsedExample_def)
  show "fetchPriceRulesFromAPI serialize (\<lambda>s. s) (Inr nestedDocument) = Inr parsedExample"
    by (simp add: fetchPriceRulesFromAPI_def rule_nodes [OF example_shapes(3) n]
        nested_rule_elements enumerate_eq_zip summer_record plain_record parsedExample_def)
qed

theorem merge_reassigns_ids_only_witness:
  "length (mergeSeasons twoSeasons) = 4 \<and>
   rule_id (arrivedRules twoSeasons ! 2) = 1 \<and>
   rule_id (mergeSeasons twoSeasons ! 2) = 3 \<and>
   colour (mergeSeasons twoSeasons ! 2) = ''#0072B2'' \<and>
   COLOURS ! (2 mod length COLOURS) = ''#F0E442'' \<and>
   rule_from (mergeSeasons twoSeasons ! 2) = Some ''2025-06-01'' \<and>
   rule_to (mergeSeasons twoSeasons ! 2) = Some ''2025-08-31'' \<and>
   percentage (mergeSeasons twoSeasons ! 2) = Some ''10.5'' \<and>
   arrivalWeekdays (mergeSeasons twoSeasons ! 2) = [Num 6, Num 7] \<and>
   minStay (mergeSeasons twoSeasons ! 2) = Some (Num 3) \<and>
   maxStay (mergeSeasons twoSeasons ! 2) = Some (Num 7) \<and>
   maxDaysToArrival (mergeSeasons twoSeasons ! 2) = Some (Num 180) \<and>
   originalXml (mergeSeasons twoSeasons ! 2) = serialize summerRuleNode"
proof -
  have a: "arrivedRules twoSeasons = parsedExample @ parsedExample"
    by (simp add: twoSeasons_def fetch_examples arrivedRules_def)
  have l: "length (arrivedRules twoSeasons) = 4"
    by (simp add: a parsedExample_def)
  have t: "length (arrivedRules (take (Suc 0) twoSeasons)) = 2"
    by (simp add: twoSeasons_def fetch_examples arrivedRules_def parsedExample_def)
  have k: "1 < length twoSeasons"
    by (simp add: twoSeasons_def)
  have j: "0 < length parsedExample"
    by (simp add: parsedExample_def)
  have s: "twoSeasons ! 1 = fetchPriceRulesFromAPI serialize (\<lambda>s. s) (Inr nestedDocument) \<and>
      twoSeasons ! 1 = Inr parsedExample"
    by (simp add: twoSeasons_def fetch_examples)
  have old: "arrivedRules twoSeasons ! 2 = parsedExample ! 0"
    by (simp add: a parsedExample_def nth_append)
  have c: "COLOURS ! (2 mod length COLOURS) = ''#F0E442''"
    "COLOURS ! (0 mod length COLOURS) = ''#0072B2''"
    by (simp_all add: COLOURS_def)
  note w = merge_reassigns_ids_only [where fetched = twoSeasons
      and serializeToString = serialize and parseFloat = "\<lambda>s. s"
      and response = "Inr nestedDocument"]
  have frame: "2 < length (arrivedRules twoSeasons)"
    by (simp add: l)
  note f = w [THEN conjunct2, THEN conjunct1, rule_format, OF frame]
  note g = w [THEN conjunct2, THEN conjunct2, rule_format, OF k j s]
  have "colour (mergeSeasons twoSeasons ! 2) = ''#0072B2''"
    using g c(2) by (simp add: t)
  moreover have "length (mergeSeasons twoSeasons) = 4"
    using w [THEN conjunct1] l by simp
  ultimately show ?thesis
    using f c(1) by (simp add: old parsedExample_def)
qed

section \<open>Unparsable dates\<close>

text \<open>
  C5, as stated, fails: a rule with an unparsable \<open>from\<close>, and a booking with an
  unparsable arrival date, are each evaluated to the verdict true, not to an error.
\<close>

theorem unparsable_date_counterexample:
  "parseISO_date (rule_from brokenRule) = InvalidDate \<and>
   isBookingAllowedByRule parseISO_date brokenRule (Some ''2025-01-11'') (Some (Num 3))
     (ValidDate 1735689600000) = True \<and>
   parseISO_date (Some ''not-a-date'') = InvalidDate \<and>
   isBookingAllowedByRule parseISO_date openRule (Some ''not-a-date'') (Some (Num 3))
     (ValidDate 1735689600000) = True"
  by (simp add: allowed_unfold brokenRule_def openRule_def parse_dates check_defs)

lemma highlighted_one_entry:
  "i \<in> set (highlightedRuleIds parseISO [entry] rules bd) \<longleftrightarrow>
     (\<exists>rule \<in> set rules. rule_id rule = i \<and> entryMatches parseISO rule entry bd)"
  by (auto simp: highlighted_firstSeen set_firstSeen matchingRuleIds_def)

text \<open>
  C5 (as the code has it). An unparsable date string does not make the evaluation fail:
  \<^verbatim>\<open>parseISO\<close> yields the Invalid Date, every comparison with it is false, and the
  evaluator returns a verdict. With a valid arrival date, an unparsable \<open>from\<close> (\<open>to\<close>)
  leaves the lower (upper) end of the range unchecked; with an unparsable arrival date
  the range and the booking window are not checked, and the rule matches exactly when the
  stay length fits and \<open>arrivalWeekdays\<close> is empty or holds \<^verbatim>\<open>NaN\<close>. No error arises, so
  in a batch every rule contributes its own verdict.
\<close>

theorem unparsable_dates_give_a_verdict:
  assumes "s \<noteq> []" and "truthy n"
  shows "(parseISO (Some s) = ValidDate a \<longrightarrow>
      isBookingAllowedByRule parseISO rule (Some s) (Some n) bcd =
        ((case parseISO (rule_from rule) of InvalidDate \<Rightarrow> True | ValidDate f \<Rightarrow> f \<le> a) \<and>
         (case parseISO (rule_to rule) of InvalidDate \<Rightarrow> True | ValidDate t \<Rightarrow> a \<le> t) \<and>
         \<not> stayFails rule n \<and> \<not> windowFails rule (ValidDate a) bcd \<and>
         \<not> weekdayFails rule (ValidDate a))) \<and>
    (parseISO (Some s) = InvalidDate \<longrightarrow>
      isBookingAllowedByRule parseISO rule (Some s) (Some n) bcd =
        (\<not> stayFails rule n \<and>
         (arrivalWeekdays rule = [] \<or> NaN \<in> set (arrivalWeekdays rule)))) \<and>
    (\<forall>i. i \<in> set (highlightedRuleIds parseISO [entry] rules bcd) \<longleftrightarrow>
       (\<exists>r \<in> set rules. rule_id r = i \<and> entryMatches parseISO r entry bcd))"
proof (intro conjI impI allI)
  assume a: "parseISO (Some s) = ValidDate a"
  show "isBookingAllowedByRule parseISO rule (Some s) (Some n) bcd =
        ((case parseISO (rule_from rule) of InvalidDate \<Rightarrow> True | ValidDate f \<Rightarrow> f \<le> a) \<and>
         (case parseISO (rule_to rule) of InvalidDate \<Rightarrow> True | ValidDate t \<Rightarrow> a \<le> t) \<and>
         \<not> stayFails rule n \<and> \<not> windowFails rule (ValidDate a) bcd \<and>
         \<not> weekdayFails rule (ValidDate a))"
    using assms a
    by (cases "parseISO (rule_from rule)"; cases "parseISO (rule_to rule)")
       (auto simp: allowed_unfold)
next
  assume i: "parseISO (Some s) = InvalidDate"
  have "windowFails rule InvalidDate bcd = False"
    by (simp add: windowFails_def split: option.splits)
  moreover have "weekdayFails rule InvalidDate =
      (\<not> (arrivalWeekdays rule = [] \<or> NaN \<in> set (arrivalWeekdays rule)))"
    by (simp add: weekdayFails_def)
  ultimately show "isBookingAllowedByRule parseISO rule (Some s) (Some n) bcd =
        (\<not> stayFails rule n \<and>
         (arrivalWeekdays rule = [] \<or> NaN \<in> set (arrivalWeekdays rule)))"
    using assms i by (simp add: allowed_unfold)
next
  fix i
  show "i \<in> set (highlightedRuleIds parseISO [entry] rules bcd) \<longleftrightarrow>
       (\<exists>r \<in> set rules. rule_id r = i \<and> entryMatches parseISO r entry bcd)"
    by (rule highlighted_one_entry)
qed

theorem unparsable_dates_give_a_verdict_witness:
  "parseISO_date (rule_from brokenRule) = InvalidDate \<and>
   isBookingAllowedByRule parseISO_date brokenRule (Some ''2025-01-11'') (Some (Num 3))
     (ValidDate 1735689600000) = True \<and>
   isBookingAllowedByRule parseISO_date brokenRule (Some ''2026-01-01'') (Some (Num 3))
     (ValidDate 1735689600000) = False \<and>
   isBookingAllowedByRule parseISO_date (openRule\<lparr>arrivalWeekdays := [Num 6]\<rparr>)
     (Some ''not-a-date'') (Some (Num 3)) (ValidDate 1735689600000) = False \<and>
   set (highlightedRuleIds parseISO_date [januaryBooking] (brokenRule # threeRules)
     (ValidDate 1735689600000)) = {1, 2}"
proof -
  let ?r1 = "openRule\<lparr>rule_to := Some ''2025-01-12''\<rparr>"
  let ?r2 = "openRule\<lparr>rule_id := 2\<rparr>"
  let ?r3 = "openRule\<lparr>rule_id := 3, rule_from := Some ''2025-06-01'',
    rule_to := Some ''2025-08-31''\<rparr>"
  have n: "truthy (Num 3)"
    by simp
  have ne: "''2025-01-11'' \<noteq> []" "''2026-01-01'' \<noteq> []" "''not-a-date'' \<noteq> []"
    by simp_all
  have f: "parseISO_date (rule_from brokenRule) = InvalidDate"
    "parseISO_date (rule_to brokenRule) = ValidDate 1767139200000"
    by (simp_all add: brokenRule_def openRule_def parse_dates)
  have o: "\<not> stayFails brokenRule (Num 3)" "\<And>a b. \<not> windowFails brokenRule a b"
    "\<And>a. \<not> weekdayFails brokenRule (ValidDate a)"
    "\<not> stayFails (openRule\<lparr>arrivalWeekdays := [Num 6]\<rparr>) (Num 3)"
    by (simp_all add: brokenRule_def openRule_def check_defs)
  have m: "entryMatches parseISO_date r januaryBooking (ValidDate 1735689600000) =
      isBookingAllowedByRule parseISO_date r (Some ''2025-01-11'') (Some (Num 3))
        (ValidDate 1735689600000)" for r :: "unit rule"
    by (simp add: entryMatches_def januaryBooking_def parseInt_3)
  have v: "isBookingAllowedByRule parseISO_date brokenRule (Some ''2025-01-11'') (Some (Num 3))
     (ValidDate 1735689600000)"
    "isBookingAllowedByRule parseISO_date (?r1) (Some ''2025-01-11'') (Some (Num 3))
     (ValidDate 1735689600000)"
    "isBookingAllowedByRule parseISO_date (?r2) (Some ''2025-01-11'') (Some (Num 3))
     (ValidDate 1735689600000)"
    "\<not> isBookingAllowedByRule parseISO_date (?r3) (Some ''2025-01-11'') (Some (Num 3))
     (ValidDate 1735689600000)"
    by (simp_all add: allowed_unfold brokenRule_def threeRules_def openRule_def parse_dates
        check_defs)
  have ids: "rule_id brokenRule = 1" "rule_id (?r1) = 1" "rule_id (?r2) = 2"
    "rule_id (?r3) = 3"
    by (simp_all add: brokenRule_def threeRules_def openRule_def)
  have t: "brokenRule # threeRules = [brokenRule, ?r1, ?r2, ?r3]"
    by (simp add: threeRules_def)
  note w1 = unparsable_dates_give_a_verdict [where parseISO = parseISO_date
      and s = "''2025-01-11''" and rule = brokenRule and a = 1736553600000
      and bcd = "ValidDate 1735689600000" and entry = januaryBooking
      and rules = "brokenRule # threeRules", OF ne(1) n]
  note w2 = unparsable_dates_give_a_verdict [where parseISO = parseISO_date
      and s = "''2026-01-01''" and rule = brokenRule and a = 1767225600000
      and bcd = "ValidDate 1735689600000" and entry = januaryBooking
      and rules = "brokenRule # threeRules", OF ne(2) n]
  note w3 = unparsable_dates_give_a_verdict [where parseISO = parseISO_date
      and s = "''not-a-date''" and rule = "openRule\<lparr>arrivalWeekdays := [Num 6]\<rparr>"
      and bcd = "ValidDate 1735689600000" and entry = januaryBooking
      and rules = "brokenRule # threeRules", OF ne(3) n]
  have c1: "isBookingAllowedByRule parseISO_date brokenRule (Some ''2025-01-11'') (Some (Num 3))
     (ValidDate 1735689600000) = True"
    using w1 [THEN conjunct1] by (simp add: f o parse_dates)
  have c2: "isBookingAllowedByRule parseISO_date brokenRule (Some ''2026-01-01'') (Some (Num 3))
     (ValidDate 1735689600000) = False"
    using w2 [THEN conjunct1] by (simp add: f o parse_dates)
  have c3: "isBookingAllowedByRule parseISO_date (openRule\<lparr>arrivalWeekdays := [Num 6]\<rparr>)
     (Some ''not-a-date'') (Some (Num 3)) (ValidDate 1735689600000) = False"
    using w3 [THEN conjunct2, THEN conjunct1] by (simp add: o parse_dates)
  have mem: "i \<in> set (highlightedRuleIds parseISO_date [januaryBooking] (brokenRule # threeRules)
       (ValidDate 1735689600000)) \<longleftrightarrow> i = 1 \<or> i = 2" for i
  proof -
    have "i \<in> set (highlightedRuleIds parseISO_date [januaryBooking] (brokenRule # threeRules)
       (ValidDate 1735689600000)) \<longleftrightarrow>
       (\<exists>r \<in> set [brokenRule, ?r1, ?r2, ?r3].
          rule_id r = i \<and> entryMatches parseISO_date r januaryBooking (ValidDate 1735689600000))"
      using w1 [THEN conjunct2, THEN conjunct2] by (simp only: t)
    also have "\<dots> \<longleftrightarrow> i = 1 \<or> i = 2"
      by (simp only: m list.set bex_simps) (auto simp: v ids)
    finally show ?thesis .
  qed
  have "set (highlightedRuleIds parseISO_date [januaryBooking] (brokenRule # threeRules)
     (ValidDate 1735689600000)) = {1, 2}"
    using mem by blast
  then show ?thesis
    using f(1) c1 c2 c3 by simp
qed

end
